theory Spec2Isabelle
  imports Complex_Main "HOL-Library.Monad_Syntax"
begin

section \<open>Kolmogorov-Zabih disparity estimation: the command-line driver (main.cpp)\<close>

text \<open>
  The development embeds the parameter handling of \<^verbatim>\<open>src/main.cpp\<close>: the fraction
  decoder \<^verbatim>\<open>GetFraction\<close>, the rescaling helpers \<^verbatim>\<open>multLambdaK\<close>, \<^verbatim>\<open>setLambda\<close>,
  \<^verbatim>\<open>setLambda1\<close>, \<^verbatim>\<open>setLambda2\<close>, \<^verbatim>\<open>setK\<close>, the Euclidean \<^verbatim>\<open>gcd\<close>, the normaliser
  \<^verbatim>\<open>fix_parameters\<close> and the control flow of \<^verbatim>\<open>main\<close>.

  Conventions of the embedding.
  \<^item> A C++ \<^verbatim>\<open>int\<close> has 32 bits. It is a HOL \<open>int\<close> between \<open>- 2\<^sup>3\<^sup>1\<close> and \<open>2\<^sup>3\<^sup>1 - 1\<close>, and
    every product that the program computes is written with its wrap-around (\<open>wrap_int\<close>):
    signed overflow is undefined behaviour in C++, and the two's complement result is what
    the compiled program computes. \<open>fits\<close> says that a result is representable, that is,
    that the operation does not overflow.
  \<^item> Integer division and remainder truncate towards zero, as in C++ (\<open>c_div\<close>, \<open>c_mod\<close>).
  \<^item> A \<^verbatim>\<open>float\<close> is an IEEE 754 binary32 number (\<open>float32\<close>): a finite value is the
    rational number it stands for, and every operation rounds its exact result to the
    nearest representable number, ties to even (\<open>round_float\<close>).
  \<^item> The solver (\<^verbatim>\<open>class Match\<close>) is not part of the file. Its method calls are recorded
    in a trace of \<open>call\<close>s, and the value returned by \<^verbatim>\<open>Match::GetK\<close> is a parameter of
    the model (a function of the parameters last handed over by \<^verbatim>\<open>SetParameters\<close>).
\<close>

subsection \<open>Data model\<close>

datatype DataCost = L1 | L2

text \<open>\<^verbatim>\<open>Match::Parameters\<close>, with the fields in the order of the initialiser in \<^verbatim>\<open>main\<close>.\<close>

record Parameters =
  dataCost :: DataCost
  denominator :: int
  edgeThresh :: int
  lambda1 :: int
  lambda2 :: int
  K :: int
  maxIter :: int
  bRandomizeEveryIteration :: bool

text \<open>
  The calls made on the solver object \<^verbatim>\<open>m\<close>, in the order in which they happen.
  \<open>NewMatch color\<close> is its construction \<^verbatim>\<open>Match m(im1, im2, color)\<close>.
\<close>

datatype call =
    NewMatch bool
  | SetParameters Parameters
  | GetK
  | SetDispRange int int
  | KZ2
  | SaveXLeft string
  | SaveScaledXLeft string bool

subsection \<open>The arithmetic of \<^verbatim>\<open>int\<close>\<close>

text \<open>
  The range of \<^verbatim>\<open>int\<close>, and the value that a 32-bit register holds after an operation
  whose exact result is \<open>x\<close>.
\<close>

definition fits :: "int \<Rightarrow> bool" where
  "fits x = (- 2147483648 \<le> x \<and> x \<le> 2147483647)"

definition wrap_int :: "int \<Rightarrow> int" where
  "wrap_int x = (x + 2147483648) mod 4294967296 - 2147483648"

text \<open>
  Division and remainder. The divisors of the program are never 0. The one quotient that
  is not representable, \<^verbatim>\<open>INT_MIN / -1\<close> with the remainder \<^verbatim>\<open>INT_MIN % -1\<close>, has no
  defined result in C++; the divisions of the program have a divisor above 1, and in the
  Euclidean algorithm the pair can only come up after an overflow has made an operand
  negative.
\<close>

definition c_div :: "int \<Rightarrow> int \<Rightarrow> int" where
  "c_div a b = sgn a * sgn b * (\<bar>a\<bar> div \<bar>b\<bar>)"

definition c_mod :: "int \<Rightarrow> int \<Rightarrow> int" where
  "c_mod a b = sgn a * (\<bar>a\<bar> mod \<bar>b\<bar>)"

subsection \<open>Rescaling (lines 58 to 90)\<close>

text \<open>
  \<^verbatim>\<open>multLambdaK(lambda, denom, params)\<close>: the array \<^verbatim>\<open>denom[5]\<close> is the tuple of its five
  factors; the function updates \<^verbatim>\<open>lambda\<close> and \<^verbatim>\<open>params\<close> in place, the model returns
  both.
\<close>

fun multLambdaK ::
  "int \<Rightarrow> int \<times> int \<times> int \<times> int \<times> int \<Rightarrow> Parameters \<Rightarrow> int \<times> Parameters" where
  "multLambdaK lambda (d0, d1, d2, d3, d4) params =
     (wrap_int (lambda * d0),
      params\<lparr>lambda1 := wrap_int (lambda1 params * d1),
             lambda2 := wrap_int (lambda2 params * d2),
             K := wrap_int (K params * d3),
             denominator := wrap_int (denominator params * d4)\<rparr>)"

text \<open>No product of \<^verbatim>\<open>multLambdaK\<close> overflows.\<close>

fun multLambdaK_fits :: "int \<Rightarrow> int \<times> int \<times> int \<times> int \<times> int \<Rightarrow> Parameters \<Rightarrow> bool" where
  "multLambdaK_fits lambda (d0, d1, d2, d3, d4) params =
     (fits (lambda * d0) \<and> fits (lambda1 params * d1) \<and> fits (lambda2 params * d2) \<and>
      fits (K params * d3) \<and> fits (denominator params * d4))"

definition setLambda :: "int \<Rightarrow> int \<Rightarrow> Parameters \<Rightarrow> int \<times> Parameters" where
  "setLambda lambda denom params =
     multLambdaK lambda (denominator params, denom, denom, denom, denom) params"

definition setLambda1 :: "int \<Rightarrow> int \<Rightarrow> Parameters \<Rightarrow> int \<times> Parameters" where
  "setLambda1 lambda denom params =
     multLambdaK lambda (denom, denominator params, denom, denom, denom) params"

definition setLambda2 :: "int \<Rightarrow> int \<Rightarrow> Parameters \<Rightarrow> int \<times> Parameters" where
  "setLambda2 lambda denom params =
     multLambdaK lambda (denom, denom, denominator params, denom, denom) params"

definition setK :: "int \<Rightarrow> int \<Rightarrow> Parameters \<Rightarrow> int \<times> Parameters" where
  "setK lambda denom params =
     multLambdaK lambda (denom, denom, denom, denominator params, denom) params"

subsection \<open>Greatest common divisor (lines 92 to 97)\<close>

function gcd_c :: "int \<Rightarrow> int \<Rightarrow> int" where
  "gcd_c a b = (if b = 0 then a else gcd_c b (c_mod a b))"
  by pat_completeness auto
termination
proof (relation "measure (\<lambda>(a, b). nat \<bar>b\<bar>)")
  show "wf (measure (\<lambda>(a, b). nat \<bar>b\<bar>))" by simp
next
  fix a b :: int
  assume "b \<noteq> 0"
  then have "\<bar>a\<bar> mod \<bar>b\<bar> < \<bar>b\<bar>" by simp
  moreover have "0 \<le> \<bar>a\<bar> mod \<bar>b\<bar>"
    using \<open>b \<noteq> 0\<close> by simp
  then have "\<bar>c_mod a b\<bar> = \<bar>a\<bar> mod \<bar>b\<bar>"
    by (cases "a = 0") (simp_all add: c_mod_def abs_mult abs_sgn_eq)
  ultimately show "((b, c_mod a b), (a, b)) \<in> measure (\<lambda>(a, b). nat \<bar>b\<bar>)"
    by simp
qed

declare gcd_c.simps [simp del]

subsection \<open>The arithmetic of \<^verbatim>\<open>float\<close>\<close>

text \<open>
  A binary32 number is 0 or \<open>m * 2\<^sup>e\<close> with an integer \<open>m\<close> of at most 24 bits and
  \<open>- 149 \<le> e\<close>; the values from \<open>2\<^sup>1\<^sup>2\<^sup>8\<close> on are rounded to an infinity. \<open>exponent x\<close> is the
  integer part of the binary logarithm of \<open>\<bar>x\<bar>\<close>, and the distance between the
  representable numbers around \<open>x\<close> is \<open>2\<close> to the power \<open>exponent x - 23\<close> (to the power
  \<open>- 149\<close> for the subnormal numbers below \<open>2\<^sup>-\<^sup>1\<^sup>2\<^sup>6\<close>).
\<close>

datatype float32 = Finite rat | PInf | MInf | NaN

function ilog2 :: "int \<Rightarrow> int" where
  "ilog2 n = (if n < 2 then 0 else 1 + ilog2 (n div 2))"
  by pat_completeness auto
termination
  by (relation "measure nat") auto

declare ilog2.simps [simp del]

definition pow2 :: "int \<Rightarrow> rat" where
  "pow2 e = (if 0 \<le> e then 2 ^ nat e else 1 / 2 ^ nat (- e))"

definition exponent :: "rat \<Rightarrow> int" where
  "exponent x =
     (case quotient_of \<bar>x\<bar> of (p, q) \<Rightarrow>
        let e = ilog2 p - ilog2 q
        in if pow2 e \<le> \<bar>x\<bar> then e else e - 1)"

definition round_even :: "rat \<Rightarrow> int" where
  "round_even x =
     (let f = \<lfloor>x\<rfloor>; d = x - of_int f
      in if d < 1 / 2 then f else if 1 / 2 < d then f + 1 else if even f then f else f + 1)"

definition fl :: "rat \<Rightarrow> rat" where
  "fl x =
     (if x = 0 then 0
      else let ulp = pow2 (max (exponent x) (- 126) - 23)
           in of_int (round_even (x / ulp)) * ulp)"

definition round_float :: "rat \<Rightarrow> float32" where
  "round_float x =
     (let y = fl x
      in if 2 ^ 128 \<le> y then PInf else if y \<le> - (2 ^ 128) then MInf else Finite y)"

text \<open>The conversion \<^verbatim>\<open>(float)i\<close> of an \<^verbatim>\<open>int\<close>.\<close>

definition f_of_int :: "int \<Rightarrow> float32" where
  "f_of_int i = round_float (of_int i)"

text \<open>
  The division \<^verbatim>\<open>x / y\<close>. A zero divisor of the program is the positive zero
  \<^verbatim>\<open>(float)0\<close>, so the sign of the quotient is the sign of \<open>x\<close>.
\<close>

fun f_div :: "float32 \<Rightarrow> float32 \<Rightarrow> float32" where
  "f_div (Finite a) (Finite b) =
     (if b \<noteq> 0 then round_float (a / b)
      else if 0 < a then PInf else if a < 0 then MInf else NaN)"
| "f_div PInf (Finite b) = (if 0 \<le> b then PInf else MInf)"
| "f_div MInf (Finite b) = (if 0 \<le> b then MInf else PInf)"
| "f_div (Finite a) PInf = Finite 0"
| "f_div (Finite a) MInf = Finite 0"
| "f_div x y = NaN"

text \<open>The comparison \<^verbatim>\<open>x < c\<close> with a finite number: it is false of a NaN.\<close>

fun f_less :: "float32 \<Rightarrow> rat \<Rightarrow> bool" where
  "f_less (Finite a) c = (a < c)"
| "f_less MInf c = True"
| "f_less PInf c = False"
| "f_less NaN c = False"

text \<open>
  \<^verbatim>\<open>x *= 2\<close> for \<^verbatim>\<open>x < 3\<close>: the double of a binary floating-point number below 3 is
  representable, so nothing is rounded.
\<close>

fun f_double :: "float32 \<Rightarrow> float32" where
  "f_double (Finite a) = Finite (a * 2)"
| "f_double x = x"

text \<open>\<^verbatim>\<open>x + 0.5f\<close>.\<close>

fun f_add_half :: "float32 \<Rightarrow> float32" where
  "f_add_half (Finite a) = round_float (a + 1 / 2)"
| "f_add_half x = x"

text \<open>
  The conversion \<^verbatim>\<open>int(x)\<close>: the fractional part is discarded. It has no defined result in
  C++ when the integer part is not representable or \<open>x\<close> is not finite; the conversion
  instruction of the x86 processors then gives \<^verbatim>\<open>INT_MIN\<close>. \<open>float_in_int\<close> says that the
  conversion is defined.
\<close>

definition truncate :: "rat \<Rightarrow> int" where
  "truncate x = (if 0 \<le> x then \<lfloor>x\<rfloor> else \<lceil>x\<rceil>)"

fun float_in_int :: "float32 \<Rightarrow> bool" where
  "float_in_int (Finite a) = fits (truncate a)"
| "float_in_int x = False"

fun float_to_int :: "float32 \<Rightarrow> int" where
  "float_to_int (Finite a) = (if fits (truncate a) then truncate a else - 2147483648)"
| "float_to_int x = - 2147483648"

subsection \<open>Normalisation (lines 99 to 140)\<close>

text \<open>
  The loop \<^verbatim>\<open>while(K < 3) { K *= 2; denom *= 2; }\<close> of line 113. It need not return:
  the result \<open>None\<close> is a loop that runs forever.
\<close>

partial_function (option) doubling :: "float32 \<Rightarrow> int \<Rightarrow> (float32 \<times> int) option" where
  "doubling Kf denom =
     (if f_less Kf 3 then doubling (f_double Kf) (wrap_int (denom * 2)) else Some (Kf, denom))"

declare doubling.simps [code]

text \<open>
  Lines 107 to 112: the value of \<^verbatim>\<open>K\<close> before the loop, with the calls made on the solver.
  \<open>estK\<close> gives the value of \<^verbatim>\<open>m.GetK()\<close> after \<^verbatim>\<open>m.SetParameters(&params)\<close>.
\<close>

definition working_value :: "(Parameters \<Rightarrow> rat) \<Rightarrow> Parameters \<Rightarrow> float32 \<times> call list" where
  "working_value estK params =
     (let Kf = f_div (f_of_int (K params)) (f_of_int (denominator params));
          (Kf, calls) = (if K params \<le> 0
                         then (round_float (estK params), [SetParameters params, GetK])
                         else (Kf, []))
      in (f_div Kf (f_of_int 5), calls))"

text \<open>
  Lines 106 to 116: \<^verbatim>\<open>lambda\<close> is derived from \<^verbatim>\<open>K\<close> when it is negative. The result is
  the new \<^verbatim>\<open>lambda\<close>, the new \<^verbatim>\<open>params\<close> and the calls made on the solver.
\<close>

definition derive_lambda ::
  "(Parameters \<Rightarrow> rat) \<Rightarrow> Parameters \<Rightarrow> int \<Rightarrow> (int \<times> Parameters \<times> call list) option" where
  "derive_lambda estK params lambda =
     (if lambda < 0 then
        let (Kf, calls) = working_value estK params
        in do {
          (Kf, denom) \<leftarrow> doubling Kf 1;
          let lambda = float_to_int (f_add_half Kf);
          let (lambda, params) = setLambda lambda denom params;
          Some (lambda, params, calls)
        }
      else Some (lambda, params, []))"

text \<open>Lines 117 to 119: the defaults of the fields that are still negative.\<close>

definition fill_defaults :: "int \<Rightarrow> Parameters \<Rightarrow> Parameters" where
  "fill_defaults lambda params =
     (let params = (if K params < 0 then params\<lparr>K := wrap_int (5 * lambda)\<rparr> else params);
          params = (if lambda1 params < 0 then params\<lparr>lambda1 := wrap_int (3 * lambda)\<rparr>
                    else params);
          params = (if lambda2 params < 0 then params\<lparr>lambda2 := lambda\<rparr> else params)
      in params)"

text \<open>
  Lines 120 to 131: the four numbers are divided by their common divisor. The result is
  the new \<^verbatim>\<open>params\<close> and \<^verbatim>\<open>denomLambda\<close>.
\<close>

definition reduce_params :: "Parameters \<Rightarrow> Parameters \<times> int" where
  "reduce_params params =
     (let denom = gcd_c (K params)
                    (gcd_c (lambda1 params) (gcd_c (lambda2 params) (denominator params)));
          denomLambda = denominator params
      in if denom > 1 then
           (params\<lparr>K := c_div (K params) denom,
                   lambda1 := c_div (lambda1 params) denom,
                   lambda2 := c_div (lambda2 params) denom,
                   denominator := c_div (denominator params) denom\<rparr>,
            denom)
         else (params, denomLambda))"

text \<open>Lines 133 to 139: the fraction \<^verbatim>\<open>lambda/denomLambda\<close> is reduced.\<close>

definition reduce_lambda :: "int \<Rightarrow> int \<Rightarrow> int \<times> int" where
  "reduce_lambda lambda denomLambda =
     (let denom = gcd_c lambda denomLambda
      in if denom > 1 then (c_div lambda denom, c_div denomLambda denom)
         else (lambda, denomLambda))"

text \<open>
  What \<^verbatim>\<open>fix_parameters\<close> leaves behind: the returned \<^verbatim>\<open>denomLambda\<close>, the reference
  arguments \<^verbatim>\<open>params\<close> and \<^verbatim>\<open>lambda\<close> as they are on return, and the calls made on \<^verbatim>\<open>m\<close>.
\<close>

record fixed =
  ret_denomLambda :: int
  out_params :: Parameters
  out_lambda :: int
  calls :: "call list"

definition fix_parameters :: "(Parameters \<Rightarrow> rat) \<Rightarrow> Parameters \<Rightarrow> int \<Rightarrow> fixed option" where
  "fix_parameters estK params lambda =
     do {
       (lambda, params, calls1) \<leftarrow> derive_lambda estK params lambda;
       let params = fill_defaults lambda params;
       let (params, denomLambda) = reduce_params params;
       let calls2 = calls1 @ [SetParameters params];
       let (lambda, denomLambda) = reduce_lambda lambda denomLambda;
       Some \<lparr>ret_denomLambda = denomLambda, out_params = params, out_lambda = lambda,
             calls = calls2\<rparr>
     }"

text \<open>
  The runs of \<^verbatim>\<open>fix_parameters\<close> without overflow. In lines 106 to 116: the counter of
  the loop is a power of 2, which wraps around to \<^verbatim>\<open>INT_MIN\<close> and then to 0, so it has not
  overflowed exactly when it is still positive; the conversion of line 114 is defined; no
  product of \<^verbatim>\<open>setLambda\<close> overflows. In lines 117 and 118: the products \<^verbatim>\<open>5*lambda\<close> and
  \<^verbatim>\<open>3*lambda\<close> that are computed are representable.
\<close>

definition derive_lambda_fits :: "(Parameters \<Rightarrow> rat) \<Rightarrow> Parameters \<Rightarrow> int \<Rightarrow> bool" where
  "derive_lambda_fits estK params lambda =
     (lambda < 0 \<longrightarrow>
        (case doubling (fst (working_value estK params)) 1 of
           None \<Rightarrow> True
         | Some (Kf, denom) \<Rightarrow>
             1 \<le> denom \<and> float_in_int (f_add_half Kf) \<and>
             multLambdaK_fits (float_to_int (f_add_half Kf))
               (denominator params, denom, denom, denom, denom) params))"

definition fix_parameters_fits :: "(Parameters \<Rightarrow> rat) \<Rightarrow> Parameters \<Rightarrow> int \<Rightarrow> bool" where
  "fix_parameters_fits estK params lambda =
     (derive_lambda_fits estK params lambda \<and>
      (case derive_lambda estK params lambda of
         None \<Rightarrow> True
       | Some (lambda, params, cs) \<Rightarrow>
           (K params < 0 \<longrightarrow> fits (5 * lambda)) \<and>
           (lambda1 params < 0 \<longrightarrow> fits (3 * lambda))))"

text \<open>The initialiser of \<^verbatim>\<open>params\<close> in \<^verbatim>\<open>main\<close> (lines 144 to 149).\<close>

definition default_params :: Parameters where
  "default_params =
     \<lparr>dataCost = L2, denominator = 1, edgeThresh = 8, lambda1 = - 1, lambda2 = - 1,
      K = - 1, maxIter = 4, bRandomizeEveryIteration = False\<rparr>"

subsection \<open>The fraction decoder (lines 45 to 56)\<close>

text \<open>
  \<^verbatim>\<open>std::sscanf\<close> is modelled for the two formats that are used. The conversion \<^verbatim>\<open>%d\<close>
  skips white space, reads an optional sign and then at least one decimal digit, as many as
  there are; \<open>scan_int\<close> gives the number and the rest of the input, or \<open>None\<close> when the
  input does not start that way. What follows a converted prefix is not looked at. A
  number that is not representable has no defined result in C; the GNU C library converts
  the digits as \<^verbatim>\<open>strtol\<close> does, to a \<^verbatim>\<open>long\<close> of 64 bits that stops at its bounds
  (\<open>clamp_long\<close>), and stores the low 32 bits.
\<close>

definition isspace_c :: "char \<Rightarrow> bool" where
  "isspace_c c = (c \<in> set [CHR '' '', CHR 0x09, CHR 0x0A, CHR 0x0B, CHR 0x0C, CHR 0x0D])"

definition isdigit_c :: "char \<Rightarrow> bool" where
  "isdigit_c c = (c \<in> set ''0123456789'')"

definition digit_val :: "char \<Rightarrow> int" where
  "digit_val c = of_char c - 48"

fun scan_digits :: "int \<Rightarrow> string \<Rightarrow> int \<times> string" where
  "scan_digits acc [] = (acc, [])"
| "scan_digits acc (c # cs) =
     (if isdigit_c c then scan_digits (acc * 10 + digit_val c) cs else (acc, c # cs))"

definition scan_sign :: "string \<Rightarrow> bool \<times> string" where
  "scan_sign s =
     (case s of
        [] \<Rightarrow> (False, [])
      | c # cs \<Rightarrow> if c = CHR ''-'' then (True, cs)
                 else if c = CHR ''+'' then (False, cs)
                 else (False, c # cs))"

definition clamp_long :: "int \<Rightarrow> int" where
  "clamp_long v = max (- 9223372036854775808) (min 9223372036854775807 v)"

definition scan_int :: "string \<Rightarrow> (int \<times> string) option" where
  "scan_int s =
     (let (neg, s') = scan_sign (dropWhile isspace_c s)
      in case s' of
           [] \<Rightarrow> None
         | c # cs \<Rightarrow>
             if isdigit_c c then
               let (v, rest) = scan_digits 0 s'
               in Some (wrap_int (clamp_long (if neg then - v else v)), rest)
             else None)"

text \<open>
  \<^verbatim>\<open>sscanf(s, "%d/%d", &a, &b)\<close> and \<^verbatim>\<open>sscanf(s, "%d", &a)\<close>: the list of the values
  assigned, in order. The return value of \<^verbatim>\<open>sscanf\<close> is the length of that list (or \<^verbatim>\<open>EOF\<close>
  instead of 0), so it is 2, or 1, exactly when the list has two elements, or one.
\<close>

definition sscanf_d_slash_d :: "string \<Rightarrow> int list" where
  "sscanf_d_slash_d s =
     (case scan_int s of
        None \<Rightarrow> []
      | Some (a, r) \<Rightarrow>
          (case r of
             [] \<Rightarrow> [a]
           | c # r' \<Rightarrow>
               if c = CHR ''/'' then
                 (case scan_int r' of None \<Rightarrow> [a] | Some (b, _) \<Rightarrow> [a, b])
               else [a]))"

definition sscanf_d :: "string \<Rightarrow> int list" where
  "sscanf_d s = (case scan_int s of None \<Rightarrow> [] | Some (a, _) \<Rightarrow> [a])"

text \<open>
  \<^verbatim>\<open>GetFraction(s, numerator, denominator)\<close>. The two reference arguments are read as well
  as written: when nothing is converted they keep the values of the caller. The result is
  the returned flag and the two variables on return. The message on \<^verbatim>\<open>std::cerr\<close> is
  written exactly when the flag is false.
\<close>

definition GetFraction :: "string \<Rightarrow> int \<Rightarrow> int \<Rightarrow> bool \<times> int \<times> int" where
  "GetFraction s numerator denom =
     (if s = ''AUTO'' then (True, - 1, 1)
      else
        let (numerator, denom) =
              (case sscanf_d_slash_d s of
                 [a, b] \<Rightarrow> (a, b)
               | as \<Rightarrow>
                   let numerator = (case as of [a] \<Rightarrow> a | _ \<Rightarrow> numerator)
                   in (case sscanf_d s of
                         [a] \<Rightarrow> (a, 1)
                       | _ \<Rightarrow> (numerator, denom)));
            ok = (numerator \<ge> 0 \<and> denom \<ge> 1)
        in (ok, numerator, denom))"

text \<open>
  The fraction that the text of an option stands for when \<^verbatim>\<open>main\<close> decodes it into a
  negative variable: the sentinel \<open>- 1\<close> over 1 for an absent option (the empty string) as
  for \<^verbatim>\<open>AUTO\<close>, and \<open>None\<close> when the decoder fails.
\<close>

definition coefficient :: "string \<Rightarrow> (int \<times> int) option" where
  "coefficient s =
     (if s = [] then Some (- 1, 1)
      else case GetFraction s (- 1) 0 of (ok, a, b) \<Rightarrow> if ok then Some (a, b) else None)"

subsection \<open>The program (lines 142 to 264)\<close>

text \<open>
  The command line after \<^verbatim>\<open>cmd.process(argc, argv)\<close>, which removes the options: \<open>argv\<close>
  holds the program name and the positional arguments, and \<^verbatim>\<open>argc\<close> is its length. The
  other fields are the variables bound to the options: an absent numeric option leaves the
  default in \<^verbatim>\<open>params\<close>, an absent string option leaves the empty string.
\<close>

record cmdline =
  argv :: "string list"
  opt_max_iter :: "int option"
  sDisp :: string
  used_r :: bool
  used_c :: bool
  cost :: string
  slambda :: string
  slambda1 :: string
  slambda2 :: string
  opt_threshold :: "int option"
  sK :: string

text \<open>
  What the program gets from outside: whether the two images load and are gray, the result
  of reading \<^verbatim>\<open>dMin\<close> and \<^verbatim>\<open>dMax\<close> (\<open>None\<close> when the test of line 236 fails), the estimate
  of the solver, and the indeterminate initial values of the four locals \<^verbatim>\<open>denom\<close> of
  lines 195, 200, 205 and 210.
\<close>

record world =
  im1_loads :: bool
  im2_loads :: bool
  im1_gray :: bool
  im2_gray :: bool
  disp_range :: "(int \<times> int) option"
  estimate_K :: "Parameters \<Rightarrow> rat"
  uninit :: "nat \<Rightarrow> int"

datatype error =
    Usage
  | BadCost
  | BadFraction string
  | UnreadableImage string
  | BadRange

text \<open>What is written to \<^verbatim>\<open>std::cout\<close>, one token for each \<^verbatim>\<open><<\<close>.\<close>

datatype token = Str string | Num int | Endl

text \<open>
  A finished run: \<open>failure\<close> is \<open>None\<close> when \<^verbatim>\<open>main\<close> returns 0 and the reason when it
  returns 1.
\<close>

record run =
  failure :: "error option"
  solver_calls :: "call list"
  cout :: "token list"

text \<open>Lines 193 to 213, one definition for each option.\<close>

definition decode_lambda ::
  "int \<Rightarrow> string \<Rightarrow> int \<times> Parameters \<Rightarrow> error + int \<times> Parameters" where
  "decode_lambda junk s lp =
     (case lp of (lambda, params) \<Rightarrow>
        if s = [] then Inr (lambda, params)
        else (case GetFraction s lambda junk of (ok, lambda, denom) \<Rightarrow>
                if \<not> ok then Inl (BadFraction s)
                else Inr (setLambda lambda denom params)))"

definition decode_lambda1 ::
  "int \<Rightarrow> string \<Rightarrow> int \<times> Parameters \<Rightarrow> error + int \<times> Parameters" where
  "decode_lambda1 junk s lp =
     (case lp of (lambda, params) \<Rightarrow>
        if s = [] then Inr (lambda, params)
        else (case GetFraction s (lambda1 params) junk of (ok, a, denom) \<Rightarrow>
                if \<not> ok then Inl (BadFraction s)
                else Inr (setLambda1 lambda denom (params\<lparr>lambda1 := a\<rparr>))))"

definition decode_lambda2 ::
  "int \<Rightarrow> string \<Rightarrow> int \<times> Parameters \<Rightarrow> error + int \<times> Parameters" where
  "decode_lambda2 junk s lp =
     (case lp of (lambda, params) \<Rightarrow>
        if s = [] then Inr (lambda, params)
        else (case GetFraction s (lambda2 params) junk of (ok, a, denom) \<Rightarrow>
                if \<not> ok then Inl (BadFraction s)
                else Inr (setLambda2 lambda denom (params\<lparr>lambda2 := a\<rparr>))))"

definition decode_K ::
  "int \<Rightarrow> string \<Rightarrow> int \<times> Parameters \<Rightarrow> error + int \<times> Parameters" where
  "decode_K junk s lp =
     (case lp of (lambda, params) \<Rightarrow>
        if s = [] then Inr (lambda, params)
        else (case GetFraction s (K params) junk of (ok, a, denom) \<Rightarrow>
                if \<not> ok then Inl (BadFraction s)
                else Inr (setK lambda denom (params\<lparr>K := a\<rparr>))))"

definition and_then :: "error + 'a \<Rightarrow> ('a \<Rightarrow> error + 'b) \<Rightarrow> error + 'b" where
  "and_then r f = (case r of Inl e \<Rightarrow> Inl e | Inr x \<Rightarrow> f x)"

definition parse_coefficients ::
  "(nat \<Rightarrow> int) \<Rightarrow> cmdline \<Rightarrow> Parameters \<Rightarrow> error + int \<times> Parameters" where
  "parse_coefficients junk c params =
     and_then (and_then (and_then
       (decode_lambda (junk 0) (slambda c) (- 1, params))
       (decode_lambda1 (junk 1) (slambda1 c)))
       (decode_lambda2 (junk 2) (slambda2 c)))
       (decode_K (junk 3) (sK c))"

text \<open>Lines 143 to 191: the defaults, the numeric options, \<^verbatim>\<open>-r\<close> and \<^verbatim>\<open>-c\<close>.\<close>

definition general_options :: "cmdline \<Rightarrow> error + Parameters" where
  "general_options c =
     (let params = default_params;
          params = (case opt_max_iter c of None \<Rightarrow> params | Some i \<Rightarrow> params\<lparr>maxIter := i\<rparr>);
          params = (case opt_threshold c of None \<Rightarrow> params
                    | Some t \<Rightarrow> params\<lparr>edgeThresh := t\<rparr>);
          params = (if used_r c then params\<lparr>bRandomizeEveryIteration := True\<rparr> else params)
      in if used_c c then
           (if cost c = ''L1'' then Inr (params\<lparr>dataCost := L1\<rparr>)
            else if cost c = ''L2'' then Inr (params\<lparr>dataCost := L2\<rparr>)
            else Inl BadCost)
         else Inr params)"

text \<open>Lines 253 to 258: the report of the resolved \<^verbatim>\<open>K\<close> and \<^verbatim>\<open>lambda\<close>.\<close>

definition report :: "Parameters \<Rightarrow> int \<Rightarrow> int \<Rightarrow> token list" where
  "report params lambda denomLambda =
     [Str ''K='', Num (K params)]
     @ (if denominator params \<noteq> 1 then [Str ''/'', Num (denominator params)] else [])
     @ [Endl, Str ''lambda='', Num lambda]
     @ (if denomLambda \<noteq> 1 then [Str ''/'', Num denomLambda] else [])
     @ [Endl]"

text \<open>Lines 245 to 259: normalisation, then the computation or the report.\<close>

definition finish ::
  "cmdline \<Rightarrow> world \<Rightarrow> call list \<Rightarrow> Parameters \<Rightarrow> int \<Rightarrow> run option" where
  "finish c w earlier params lambda =
     do {
       r \<leftarrow> fix_parameters (estimate_K w) params lambda;
       let denomLambda = ret_denomLambda r;
       let params = out_params r;
       let lambda = out_lambda r;
       let calls1 = earlier @ calls r;
       Some (if length (argv c) > 5 \<or> sDisp c \<noteq> [] then
               \<lparr>failure = None,
                solver_calls = calls1 @ [KZ2]
                  @ (if length (argv c) > 5 then [SaveXLeft (argv c ! 5)] else [])
                  @ (if sDisp c \<noteq> [] then [SaveScaledXLeft (sDisp c) False] else []),
                cout = []\<rparr>
             else
               \<lparr>failure = None,
                solver_calls = calls1,
                cout = report params lambda denomLambda\<rparr>)
     }"

definition stopped :: "error \<Rightarrow> call list \<Rightarrow> run" where
  "stopped e cs = \<lparr>failure = Some e, solver_calls = cs, cout = []\<rparr>"

definition main :: "cmdline \<Rightarrow> world \<Rightarrow> run option" where
  "main c w =
     (if length (argv c) \<noteq> 5 \<and> length (argv c) \<noteq> 6 then Some (stopped Usage [])
      else
        case general_options c of
          Inl e \<Rightarrow> Some (stopped e [])
        | Inr params \<Rightarrow>
        case parse_coefficients (uninit w) c params of
          Inl e \<Rightarrow> Some (stopped e [])
        | Inr (lambda, params) \<Rightarrow>
        if \<not> im1_loads w then Some (stopped (UnreadableImage (argv c ! 1)) [])
        else if \<not> im2_loads w then Some (stopped (UnreadableImage (argv c ! 2)) [])
        else
          let color = \<not> (im1_gray w \<and> im2_gray w);
              calls0 = [NewMatch color]
          in case disp_range w of
               None \<Rightarrow> Some (stopped BadRange calls0)
             | Some (disp_base, disp_max) \<Rightarrow>
                 finish c w (calls0 @ [SetDispRange disp_base disp_max]) params lambda)"

section \<open>Properties\<close>

subsection \<open>Representable results\<close>

lemma wrap_int_fits: "fits x \<Longrightarrow> wrap_int x = x"
  by (simp add: fits_def wrap_int_def)

lemma fits_wrap_int: "fits (wrap_int x)"
proof -
  have "0 \<le> (x + 2147483648) mod 4294967296" "(x + 2147483648) mod 4294967296 < 4294967296"
    by simp_all
  then show ?thesis by (simp add: fits_def wrap_int_def)
qed

lemma fits_factor:
  assumes "fits (x * c)" and "1 \<le> c"
  shows "fits x"
proof (cases "0 \<le> x")
  case True
  with assms(2) have "x \<le> x * c" using mult_left_mono [of 1 c x] by simp
  with True assms(1) show ?thesis unfolding fits_def by linarith
next
  case False
  with assms(2) have "x * c \<le> x" using mult_left_mono_neg [of 1 c x] by simp
  with False assms(1) show ?thesis unfolding fits_def by linarith
qed

lemma mod_double_aux: "(2 * (a mod n) - m) mod n = (2 * a - m) mod (n::int)"
  by (metis mod_diff_left_eq mod_mult_right_eq)

lemma wrap_int_double: "wrap_int (wrap_int x * 2) = wrap_int (x * 2)"
proof -
  have "(2 * ((x + 2147483648) mod 4294967296) - 2147483648) mod 4294967296 =
      (2 * (x + 2147483648) - 2147483648) mod 4294967296"
    by (rule mod_double_aux)
  then show ?thesis by (simp add: wrap_int_def algebra_simps)
qed

subsection \<open>Division, remainder and the Euclidean algorithm\<close>

lemma c_mod_nonneg: "0 \<le> a \<Longrightarrow> 0 \<le> b \<Longrightarrow> c_mod a b = a mod b"
  by (cases "a = 0") (simp_all add: c_mod_def)

lemma c_div_nonneg: "0 \<le> a \<Longrightarrow> 0 < b \<Longrightarrow> c_div a b = a div b"
  by (cases "a = 0") (simp_all add: c_div_def)

lemma gcd_c_nonneg: "0 \<le> a \<Longrightarrow> 0 \<le> b \<Longrightarrow> gcd_c a b = gcd a b"
proof (induction a b rule: gcd_c.induct)
  case (1 a b)
  show ?case
  proof (cases "b = 0")
    case True
    with "1.prems" show ?thesis by (simp add: gcd_c.simps [of a 0])
  next
    case False
    with "1.prems" have m: "c_mod a b = a mod b" "0 \<le> a mod b"
      by (simp_all add: c_mod_nonneg)
    from False "1.IH" "1.prems" m have "gcd_c b (c_mod a b) = gcd b (a mod b)"
      by simp
    with False m show ?thesis
      by (simp add: gcd_c.simps [of a b] gcd_red_int [of a b])
  qed
qed

lemma gcd_c_1: "gcd_c a 1 = 1"
proof -
  have "c_mod a 1 = 0" by (simp add: c_mod_def)
  then show ?thesis by (simp add: gcd_c.simps [of a 1] gcd_c.simps [of 1 0])
qed

subsection \<open>The rescaling helpers\<close>

lemma setLambda_simps:
  "fst (setLambda l d p) = wrap_int (l * denominator p)"
  "lambda1 (snd (setLambda l d p)) = wrap_int (lambda1 p * d)"
  "lambda2 (snd (setLambda l d p)) = wrap_int (lambda2 p * d)"
  "K (snd (setLambda l d p)) = wrap_int (K p * d)"
  "denominator (snd (setLambda l d p)) = wrap_int (denominator p * d)"
  by (simp_all add: setLambda_def)

lemma setLambda1_simps:
  "fst (setLambda1 l d p) = wrap_int (l * d)"
  "lambda1 (snd (setLambda1 l d p)) = wrap_int (lambda1 p * denominator p)"
  "lambda2 (snd (setLambda1 l d p)) = wrap_int (lambda2 p * d)"
  "K (snd (setLambda1 l d p)) = wrap_int (K p * d)"
  "denominator (snd (setLambda1 l d p)) = wrap_int (denominator p * d)"
  by (simp_all add: setLambda1_def)

lemma setLambda2_simps:
  "fst (setLambda2 l d p) = wrap_int (l * d)"
  "lambda1 (snd (setLambda2 l d p)) = wrap_int (lambda1 p * d)"
  "lambda2 (snd (setLambda2 l d p)) = wrap_int (lambda2 p * denominator p)"
  "K (snd (setLambda2 l d p)) = wrap_int (K p * d)"
  "denominator (snd (setLambda2 l d p)) = wrap_int (denominator p * d)"
  by (simp_all add: setLambda2_def)

lemma setK_simps:
  "fst (setK l d p) = wrap_int (l * d)"
  "lambda1 (snd (setK l d p)) = wrap_int (lambda1 p * d)"
  "lambda2 (snd (setK l d p)) = wrap_int (lambda2 p * d)"
  "K (snd (setK l d p)) = wrap_int (K p * denominator p)"
  "denominator (snd (setK l d p)) = wrap_int (denominator p * d)"
  by (simp_all add: setK_def)

lemma multLambdaK_exact:
  assumes "multLambdaK_fits l (d0, d1, d2, d3, d4) p"
  shows "multLambdaK l (d0, d1, d2, d3, d4) p =
     (l * d0, p\<lparr>lambda1 := lambda1 p * d1, lambda2 := lambda2 p * d2, K := K p * d3,
                denominator := denominator p * d4\<rparr>)"
  using assms by (simp add: wrap_int_fits)

subsection \<open>The parts of the normalisation\<close>

lemma working_value_calls:
  "snd (working_value estK p) = (if K p \<le> 0 then [SetParameters p, GetK] else [])"
  by (simp add: working_value_def Let_def)

lemma derive_lambda_given: "0 \<le> l \<Longrightarrow> derive_lambda estK p l = Some (l, p, [])"
  by (simp add: derive_lambda_def)

lemma derive_lambda_auto:
  assumes "derive_lambda estK p l = Some (l', p', cs)" and "l < 0"
  obtains Kf denom where "doubling (fst (working_value estK p)) 1 = Some (Kf, denom)"
    and "(l', p') = setLambda (float_to_int (f_add_half Kf)) denom p"
    and "cs = snd (working_value estK p)"
proof -
  obtain w cs0 where w: "working_value estK p = (w, cs0)" by (cases "working_value estK p")
  from assms w have eq: "(doubling w 1 \<bind> (\<lambda>(Kf, denom).
      let lambda = float_to_int (f_add_half Kf); (lambda, params) = setLambda lambda denom p
      in Some (lambda, params, cs0))) = Some (l', p', cs)"
    by (simp add: derive_lambda_def)
  then obtain r where r: "doubling w 1 = Some r"
    by (cases "doubling w 1") simp_all
  obtain Kf denom where r': "r = (Kf, denom)" by (cases r)
  from eq r r' have "(l', p') = setLambda (float_to_int (f_add_half Kf)) denom p" and "cs = cs0"
    by (simp_all add: Let_def split: prod.splits)
  with r r' w that show thesis by simp
qed

lemma derive_lambda_calls:
  assumes "derive_lambda estK p l = Some (l', p', cs)"
  shows "cs = (if l < 0 \<and> K p \<le> 0 then [SetParameters p, GetK] else [])"
proof (cases "l < 0")
  case True
  from assms True obtain Kf denom where "cs = snd (working_value estK p)"
    by (rule derive_lambda_auto)
  with True show ?thesis by (simp add: working_value_calls)
next
  case False
  with assms show ?thesis by (simp add: derive_lambda_def)
qed

lemma fill_defaults_simps:
  "K (fill_defaults l p) = (if K p < 0 then wrap_int (5 * l) else K p)"
  "lambda1 (fill_defaults l p) = (if lambda1 p < 0 then wrap_int (3 * l) else lambda1 p)"
  "lambda2 (fill_defaults l p) = (if lambda2 p < 0 then l else lambda2 p)"
  "denominator (fill_defaults l p) = denominator p"
  by (simp_all add: fill_defaults_def Let_def)

lemma fix_parameters_Some:
  assumes "fix_parameters estK p l = Some r"
  obtains l' p' cs where "derive_lambda estK p l = Some (l', p', cs)"
    and "out_params r = fst (reduce_params (fill_defaults l' p'))"
    and "calls r = cs @ [SetParameters (out_params r)]"
    and "out_lambda r = fst (reduce_lambda l' (snd (reduce_params (fill_defaults l' p'))))"
    and "ret_denomLambda r = snd (reduce_lambda l' (snd (reduce_params (fill_defaults l' p'))))"
proof -
  from assms obtain t where t: "derive_lambda estK p l = Some t"
    by (cases "derive_lambda estK p l") (simp_all add: fix_parameters_def)
  obtain l' p' cs where t': "t = (l', p', cs)" by (cases t) auto
  from assms t t' have "r = \<lparr>ret_denomLambda = snd (reduce_lambda l' (snd (reduce_params (fill_defaults l' p')))),
     out_params = fst (reduce_params (fill_defaults l' p')),
     out_lambda = fst (reduce_lambda l' (snd (reduce_params (fill_defaults l' p')))),
     calls = cs @ [SetParameters (fst (reduce_params (fill_defaults l' p')))]\<rparr>"
    by (simp add: fix_parameters_def Let_def split: prod.splits)
  then have "out_params r = fst (reduce_params (fill_defaults l' p'))"
    "calls r = cs @ [SetParameters (out_params r)]"
    "out_lambda r = fst (reduce_lambda l' (snd (reduce_params (fill_defaults l' p'))))"
    "ret_denomLambda r = snd (reduce_lambda l' (snd (reduce_params (fill_defaults l' p'))))"
    by simp_all
  with t t' that show thesis by blast
qed

lemma fix_parameters_from_derive:
  assumes "derive_lambda estK p l = Some (l', p', cs)"
  shows "fix_parameters estK p l =
     Some \<lparr>ret_denomLambda = snd (reduce_lambda l' (snd (reduce_params (fill_defaults l' p')))),
           out_params = fst (reduce_params (fill_defaults l' p')),
           out_lambda = fst (reduce_lambda l' (snd (reduce_params (fill_defaults l' p')))),
           calls = cs @ [SetParameters (fst (reduce_params (fill_defaults l' p')))]\<rparr>"
  using assms by (simp add: fix_parameters_def Let_def split: prod.splits)

lemma fix_parameters_calls:
  assumes "fix_parameters estK p l = Some r"
  shows "calls r = (if l < 0 \<and> K p \<le> 0 then [SetParameters p, GetK] else [])
                     @ [SetParameters (out_params r)]"
proof -
  from assms obtain l' p' cs where d: "derive_lambda estK p l = Some (l', p', cs)"
    and "out_params r = fst (reduce_params (fill_defaults l' p'))"
    and c: "calls r = cs @ [SetParameters (out_params r)]"
    by (rule fix_parameters_Some)
  from c derive_lambda_calls [OF d] show ?thesis by simp
qed

subsection \<open>The runs of the program\<close>

lemma finish_Some:
  assumes "finish c w earlier p l = Some run"
  obtains r where "fix_parameters (estimate_K w) p l = Some r"
    and "failure run = None"
    and "solver_calls run = earlier @ calls r @
           (if length (argv c) > 5 \<or> sDisp c \<noteq> [] then
              [KZ2] @ (if length (argv c) > 5 then [SaveXLeft (argv c ! 5)] else [])
                @ (if sDisp c \<noteq> [] then [SaveScaledXLeft (sDisp c) False] else [])
            else [])"
    and "cout run = (if length (argv c) > 5 \<or> sDisp c \<noteq> [] then []
                     else report (out_params r) (out_lambda r) (ret_denomLambda r))"
proof -
  from assms obtain r where r: "fix_parameters (estimate_K w) p l = Some r"
    by (cases "fix_parameters (estimate_K w) p l") (simp_all add: finish_def)
  from assms r have "failure run = None"
    and "solver_calls run = earlier @ calls r @
           (if length (argv c) > 5 \<or> sDisp c \<noteq> [] then
              [KZ2] @ (if length (argv c) > 5 then [SaveXLeft (argv c ! 5)] else [])
                @ (if sDisp c \<noteq> [] then [SaveScaledXLeft (sDisp c) False] else [])
            else [])"
    and "cout run = (if length (argv c) > 5 \<or> sDisp c \<noteq> [] then []
                     else report (out_params r) (out_lambda r) (ret_denomLambda r))"
    by (auto simp: finish_def Let_def split: if_splits)
  with r that show thesis by blast
qed

lemma main_cases:
  assumes "main c w = Some run"
  shows "(\<exists>e cs. run = stopped e cs \<and> (cs = [] \<or> (\<exists>b. cs = [NewMatch b]))) \<or>
         (\<exists>params0 l p b lo hi. (length (argv c) = 5 \<or> length (argv c) = 6) \<and>
            general_options c = Inr params0 \<and>
            parse_coefficients (uninit w) c params0 = Inr (l, p) \<and>
            finish c w [NewMatch b, SetDispRange lo hi] p l = Some run)"
proof (cases "length (argv c) \<noteq> 5 \<and> length (argv c) \<noteq> 6")
  case True
  with assms have "run = stopped Usage []" by (simp add: main_def)
  then show ?thesis by blast
next
  case len: False
  show ?thesis
  proof (cases "general_options c")
    case (Inl e)
    with assms len have "run = stopped e []" by (simp add: main_def)
    then show ?thesis by blast
  next
    case (Inr params0)
    show ?thesis
    proof (cases "parse_coefficients (uninit w) c params0")
      case (Inl e)
      with assms len Inr have "run = stopped e []" by (simp add: main_def)
      then show ?thesis by blast
    next
      case pc: (Inr lp)
      obtain l p where lp: "lp = (l, p)" by (cases lp)
      show ?thesis
      proof (cases "im1_loads w")
        case False
        with assms len Inr pc lp have "run = stopped (UnreadableImage (argv c ! 1)) []"
          by (simp add: main_def)
        then show ?thesis by blast
      next
        case im1: True
        show ?thesis
        proof (cases "im2_loads w")
          case False
          with assms len Inr pc lp im1 have "run = stopped (UnreadableImage (argv c ! 2)) []"
            by (simp add: main_def)
          then show ?thesis by blast
        next
          case im2: True
          show ?thesis
          proof (cases "disp_range w")
            case None
            with assms len Inr pc lp im1 im2
            have "run = stopped BadRange [NewMatch (\<not> (im1_gray w \<and> im2_gray w))]"
              by (simp add: main_def Let_def)
            then show ?thesis by blast
          next
            case (Some d)
            obtain lo hi where "d = (lo, hi)" by (cases d)
            with Some assms len Inr pc lp im1 im2
            have "finish c w [NewMatch (\<not> (im1_gray w \<and> im2_gray w)), SetDispRange lo hi] p l
                = Some run"
              by (simp add: main_def Let_def)
            with len Inr pc lp show ?thesis by blast
          qed
        qed
      qed
    qed
  qed
qed

lemma fix_parameters_no_KZ2:
  assumes "fix_parameters estK p l = Some r"
  shows "KZ2 \<notin> set (calls r)" and "count_list (calls r) KZ2 = 0"
  using fix_parameters_calls [OF assms] by simp_all

subsection \<open>The default derivation from a given lambda\<close>

text \<open>
  Claim C5, as the program has it. With \<^verbatim>\<open>-l 2\<close> and no other coefficient, the decoding
  leaves \<^verbatim>\<open>lambda = 2\<close> and the default parameters, and \<^verbatim>\<open>fix_parameters\<close> resolves
  \<^verbatim>\<open>K = 10\<close>, \<^verbatim>\<open>lambda1 = 6\<close>, \<^verbatim>\<open>lambda2 = 2\<close>. The common divisor is taken of the four numbers
  10, 6, 2 and the denominator 1, so it is 1 and nothing is divided: the parameters handed
  to the solver are \<^verbatim>\<open>K = 10\<close>, \<^verbatim>\<open>lambda1 = 6\<close>, \<^verbatim>\<open>lambda2 = 2\<close>, \<^verbatim>\<open>denominator = 1\<close>.
\<close>

theorem default_derivation:
  "parse_coefficients junk
     \<lparr>argv = a, opt_max_iter = i, sDisp = out, used_r = r, used_c = uc, cost = co,
      slambda = ''2'', slambda1 = [], slambda2 = [], opt_threshold = t, sK = []\<rparr>
     default_params = Inr (2, default_params) \<and>
   fill_defaults 2 default_params = default_params\<lparr>K := 10, lambda1 := 6, lambda2 := 2\<rparr> \<and>
   gcd_c 10 (gcd_c 6 (gcd_c 2 1)) = 1 \<and>
   fix_parameters estK default_params 2 =
     Some \<lparr>ret_denomLambda = 1,
           out_params = default_params\<lparr>K := 10, lambda1 := 6, lambda2 := 2\<rparr>,
           out_lambda = 2,
           calls = [SetParameters (default_params\<lparr>K := 10, lambda1 := 6, lambda2 := 2\<rparr>)]\<rparr>"
proof -
  have g: "gcd_c 10 (gcd_c 6 (gcd_c 2 1)) = 1" "gcd_c 2 1 = 1"
    by (simp_all add: gcd_c_1)
  have p: "parse_coefficients junk
     \<lparr>argv = a, opt_max_iter = i, sDisp = out, used_r = r, used_c = uc, cost = co,
      slambda = ''2'', slambda1 = [], slambda2 = [], opt_threshold = t, sK = []\<rparr>
     default_params = Inr (2, default_params)"
    by (simp add: parse_coefficients_def and_then_def decode_lambda_def decode_lambda1_def
        decode_lambda2_def decode_K_def GetFraction_def sscanf_d_slash_d_def sscanf_d_def
        scan_int_def scan_sign_def isspace_c_def isdigit_c_def digit_val_def setLambda_def
        default_params_def wrap_int_def clamp_long_def)
  have f: "fill_defaults 2 default_params = default_params\<lparr>K := 10, lambda1 := 6, lambda2 := 2\<rparr>"
    by (simp add: fill_defaults_def default_params_def wrap_int_def)
  have "fix_parameters estK default_params 2 =
     Some \<lparr>ret_denomLambda = 1,
           out_params = default_params\<lparr>K := 10, lambda1 := 6, lambda2 := 2\<rparr>,
           out_lambda = 2,
           calls = [SetParameters (default_params\<lparr>K := 10, lambda1 := 6, lambda2 := 2\<rparr>)]\<rparr>"
    by (simp add: fix_parameters_def derive_lambda_def fill_defaults_def reduce_params_def
        reduce_lambda_def gcd_c_1 Let_def default_params_def wrap_int_def)
  with p f g(1) show ?thesis by simp
qed

theorem default_derivation_counterexample:
  "parse_coefficients (\<lambda>_. 0)
     \<lparr>argv = [''kz2'', ''left.png'', ''right.png'', ''0'', ''16''], opt_max_iter = None,
      sDisp = [], used_r = False, used_c = False, cost = [],
      slambda = ''2'', slambda1 = [], slambda2 = [], opt_threshold = None, sK = []\<rparr>
     default_params = Inr (2, default_params) \<and>
   map_option out_params (fix_parameters (\<lambda>_. 0) default_params 2) =
     Some (default_params\<lparr>K := 10, lambda1 := 6, lambda2 := 2, denominator := 1\<rparr>) \<and>
   map_option out_params (fix_parameters (\<lambda>_. 0) default_params 2) \<noteq>
     Some (default_params\<lparr>K := 5, lambda1 := 3, lambda2 := 1, denominator := 1\<rparr>)"
  by code_simp

subsection \<open>The calls on the solver\<close>

text \<open>
  Claim C9. The last call that \<^verbatim>\<open>fix_parameters\<close> makes on the solver is \<^verbatim>\<open>SetParameters\<close>
  with the parameters exactly as they are when the function returns: the reduction of
  \<^verbatim>\<open>lambda / denomLambda\<close> that follows (lines 133 to 139) changes no field of them. Before
  it there is at most the provisional \<^verbatim>\<open>SetParameters\<close> with the query \<^verbatim>\<open>GetK\<close>. In a run of
  \<^verbatim>\<open>main\<close> that ends with exit code 0, no call made after \<^verbatim>\<open>fix_parameters\<close> is a
  \<^verbatim>\<open>SetParameters\<close>.
\<close>

theorem handoff_is_final:
  "(fix_parameters estK params lambda = Some r \<longrightarrow>
      calls r = (if lambda < 0 \<and> K params \<le> 0 then [SetParameters params, GetK] else [])
                  @ [SetParameters (out_params r)] \<and>
      last (calls r) = SetParameters (out_params r)) \<and>
   (main c w = Some run \<and> failure run = None \<longrightarrow>
      (\<exists>p l r' b lo hi later.
          fix_parameters (estimate_K w) p l = Some r' \<and>
          solver_calls run = [NewMatch b, SetDispRange lo hi] @ calls r' @ later \<and>
          last (calls r') = SetParameters (out_params r') \<and>
          (\<forall>q. SetParameters q \<notin> set later)))"
proof (intro conjI impI)
  assume "fix_parameters estK params lambda = Some r"
  from fix_parameters_calls [OF this]
  show "calls r = (if lambda < 0 \<and> K params \<le> 0 then [SetParameters params, GetK] else [])
                  @ [SetParameters (out_params r)]"
    and "last (calls r) = SetParameters (out_params r)"
    by simp_all
next
  assume a: "main c w = Some run \<and> failure run = None"
  then have m: "main c w = Some run" and ok: "failure run = None" by simp_all
  from main_cases [OF m] consider
    (stop) e cs where "run = stopped e cs"
  | (fin) l p b lo hi where "finish c w [NewMatch b, SetDispRange lo hi] p l = Some run"
    by blast
  then show "\<exists>p l r' b lo hi later.
          fix_parameters (estimate_K w) p l = Some r' \<and>
          solver_calls run = [NewMatch b, SetDispRange lo hi] @ calls r' @ later \<and>
          last (calls r') = SetParameters (out_params r') \<and>
          (\<forall>q. SetParameters q \<notin> set later)"
  proof cases
    case stop
    with ok show ?thesis by (simp add: stopped_def)
  next
    case fin
    let ?later = "(if length (argv c) > 5 \<or> sDisp c \<noteq> [] then
              [KZ2] @ (if length (argv c) > 5 then [SaveXLeft (argv c ! 5)] else [])
                @ (if sDisp c \<noteq> [] then [SaveScaledXLeft (sDisp c) False] else [])
            else [])"
    from fin obtain r' where r: "fix_parameters (estimate_K w) p l = Some r'"
      and "failure run = None"
      and sc: "solver_calls run = [NewMatch b, SetDispRange lo hi] @ calls r' @ ?later"
      and "cout run = (if length (argv c) > 5 \<or> sDisp c \<noteq> [] then []
                     else report (out_params r') (out_lambda r') (ret_denomLambda r'))"
      by (rule finish_Some)
    from fix_parameters_calls [OF r] have "last (calls r') = SetParameters (out_params r')"
      by simp
    moreover have "\<forall>q. SetParameters q \<notin> set ?later" by simp
    ultimately show ?thesis using r sc by blast
  qed
qed

theorem handoff_is_final_witness:
  "(let c = \<lparr>argv = [''kz2'', ''left.png'', ''right.png'', ''0'', ''16'', ''disp.tif''],
              opt_max_iter = None, sDisp = [], used_r = False, used_c = False, cost = [],
              slambda = [], slambda1 = [], slambda2 = [], opt_threshold = None, sK = ''7/2''\<rparr>;
        w = \<lparr>im1_loads = True, im2_loads = True, im1_gray = True, im2_gray = True,
              disp_range = Some (0, 16), estimate_K = (\<lambda>_. 40), uninit = (\<lambda>_. 0)\<rparr>;
        p = default_params\<lparr>K := 7, lambda1 := - 2, lambda2 := - 2, denominator := 2\<rparr>;
        q = default_params\<lparr>K := 14, lambda1 := 9, lambda2 := 3, denominator := 4\<rparr>;
        r = \<lparr>ret_denomLambda = 1, out_params = q, out_lambda = 3, calls = [SetParameters q]\<rparr>
    in fix_parameters (\<lambda>_. 40) p (- 2) = Some r \<and>
       last (calls r) = SetParameters (out_params r) \<and>
       main c w =
         Some \<lparr>failure = None,
               solver_calls = [NewMatch False, SetDispRange 0 16, SetParameters q, KZ2,
                               SaveXLeft ''disp.tif''],
               cout = []\<rparr>)"
proof -
  let ?c = "\<lparr>argv = [''kz2'', ''left.png'', ''right.png'', ''0'', ''16'', ''disp.tif''],
              opt_max_iter = None, sDisp = [], used_r = False, used_c = False, cost = [],
              slambda = [], slambda1 = [], slambda2 = [], opt_threshold = None, sK = ''7/2''\<rparr>"
  let ?w = "\<lparr>im1_loads = True, im2_loads = True, im1_gray = True, im2_gray = True,
              disp_range = Some (0, 16), estimate_K = (\<lambda>_. 40), uninit = (\<lambda>_. 0)\<rparr>"
  let ?p = "default_params\<lparr>K := 7, lambda1 := - 2, lambda2 := - 2, denominator := 2\<rparr>"
  let ?q = "default_params\<lparr>K := 14, lambda1 := 9, lambda2 := 3, denominator := 4\<rparr>"
  let ?r = "\<lparr>ret_denomLambda = 1, out_params = ?q, out_lambda = 3, calls = [SetParameters ?q]\<rparr>"
  let ?run = "\<lparr>failure = None,
               solver_calls = [NewMatch False, SetDispRange 0 16, SetParameters ?q, KZ2,
                               SaveXLeft ''disp.tif''],
               cout = []\<rparr>"
  have e1: "fix_parameters (\<lambda>_. 40) ?p (- 2) = Some ?r" by code_simp
  have e2: "main ?c ?w = Some ?run" by code_simp
  have e3: "failure ?run = None" by simp
  from handoff_is_final [of "\<lambda>_. 40" ?p "- 2" ?r ?c ?w ?run] e1 e2 e3
  show ?thesis by (simp add: Let_def)
qed

end
